theory Spec2Isabelle
  imports Main "HOL-Library.AList"
begin

section \<open>JSON values\<close>

text \<open>
  Schema documents, resource models and override files are JSON values. A Python
  \<^verbatim>\<open>dict\<close> is an association list in insertion order: \<open>AList.update\<close>
  replaces the value of a key in place and appends a new key at the end, as assignment
  to a dict key does.
\<close>

datatype json =
    JNull
  | JBool bool
  | JNum int
  | JStr string
  | JArr "json list"
  | JObj "(string \<times> json) list"

datatype constraint = AdditionalItems | AdditionalProperties | MutuallyExclusive

datatype error =
    NormalizationError string
  | ConstraintError constraint string
  | TypeError
  | KeyError string
  | AttributeError
  | JSONDecodeError
  | AssertionError

definition keys :: "('k \<times> 'v) list \<Rightarrow> 'k set" where
  "keys kvs = fst ` set kvs"

section \<open>Overrides (src/rpdk/core/test.py)\<close>

subsection \<open>JSON pointers\<close>

fun split_on :: "char \<Rightarrow> string \<Rightarrow> string list" where
  "split_on c [] = [[]]"
| "split_on c (x # xs) =
     (if x = c then [] # split_on c xs
      else (case split_on c xs of [] \<Rightarrow> [[x]] | y # ys \<Rightarrow> (x # y) # ys))"

definition hex_val :: "char \<Rightarrow> nat option" where
  "hex_val c =
     (let n = (of_char c :: nat) in
      if 48 \<le> n \<and> n \<le> 57 then Some (n - 48)
      else if 65 \<le> n \<and> n \<le> 70 then Some (n - 55)
      else if 97 \<le> n \<and> n \<le> 102 then Some (n - 87)
      else None)"

text \<open>\<^verbatim>\<open>urllib.parse.unquote\<close>: \<^verbatim>\<open>%XY\<close> with two hexadecimal digits is one byte.\<close>

fun unquote :: "string \<Rightarrow> string" where
  "unquote [] = []"
| "unquote [c] = [c]"
| "unquote [c, d] = [c, d]"
| "unquote (c # a # b # rest) =
     (if c = CHR ''%'' then
        (case (hex_val a, hex_val b) of
           (Some x, Some y) \<Rightarrow> char_of (16 * x + y) # unquote rest
         | _ \<Rightarrow> c # unquote (a # b # rest))
      else c # unquote (a # b # rest))"

text \<open>RFC 6901: \<^verbatim>\<open>~1\<close> stands for \<^verbatim>\<open>/\<close> and \<^verbatim>\<open>~0\<close> for \<^verbatim>\<open>~\<close>.\<close>

fun part_decode :: "string \<Rightarrow> string" where
  "part_decode [] = []"
| "part_decode [c] = [c]"
| "part_decode (c # d # rest) =
     (if c = CHR ''~'' \<and> d = CHR ''1'' then CHR ''/'' # part_decode rest
      else if c = CHR ''~'' \<and> d = CHR ''0'' then CHR ''~'' # part_decode rest
      else c # part_decode (d # rest))"

text \<open>
  Modelled from the spec: \<^verbatim>\<open>fragment_decode(pointer, prefix)\<close> of
  \<^verbatim>\<open>rpdk.core.jsonutils.pointer\<close>, which is not among the sources. A schema pointer is
  an RFC 6901 path with percent-encoded segments; the pointer must start with the
  prefix, and \<open>None\<close> stands for the \<^verbatim>\<open>ValueError\<close> raised otherwise
  (\<^verbatim>\<open>test_get_overrides_invalid_pointer_skipped\<close>, \<^verbatim>\<open>test_get_overrides_good_path\<close>).
\<close>

definition fragment_decode :: "string \<Rightarrow> string \<Rightarrow> string list option" where
  "fragment_decode prefix pointer =
     (case split_on CHR ''/'' pointer of
        [] \<Rightarrow> None
      | p # segments \<Rightarrow>
          if p = prefix then Some (map (part_decode \<circ> unquote) segments) else None)"

subsection \<open>Jinja rendering of the overrides\<close>

text \<open>
  \<^verbatim>\<open>render_jinja\<close> dumps the loaded document to text, parses the text as a Jinja
  template, and loads the rendered text as JSON again. The two libraries are outside
  the repository; they enter the model as parameters: \<open>template\<close> is the parse of
  \<^verbatim>\<open>json.dumps(overrides_raw)\<close> into literal text and variable references, and
  \<open>loads\<close> is \<^verbatim>\<open>json.loads\<close>.
\<close>

datatype segment = Text string | Variable string

fun variable_names :: "segment list \<Rightarrow> string list" where
  "variable_names [] = []"
| "variable_names (Text t # segs) = variable_names segs"
| "variable_names (Variable v # segs) = v # variable_names segs"

text \<open>\<^verbatim>\<open>meta.find_undeclared_variables\<close> returns a set of names.\<close>

definition find_undeclared_variables :: "segment list \<Rightarrow> string list" where
  "find_undeclared_variables segs = remdups (variable_names segs)"

text \<open>\<^verbatim>\<open>Template.render(var_map)\<close>: a variable without a value renders as the empty text.\<close>

fun render :: "segment list \<Rightarrow> (string \<rightharpoonup> string) \<Rightarrow> string" where
  "render [] var_map = []"
| "render (Text t # segs) var_map = t @ render segs var_map"
| "render (Variable v # segs) var_map =
     (case var_map v of None \<Rightarrow> [] | Some x \<Rightarrow> x) @ render segs var_map"

text \<open>
  \<^verbatim>\<open>get_cloudformation_exports\<close>: the pages of \<^verbatim>\<open>list_exports\<close> are merged
  in order, a later export of the same name replacing an earlier one.
\<close>

fun get_cloudformation_exports ::
  "(string \<times> string) list list \<Rightarrow> (string \<rightharpoonup> string) \<Rightarrow> (string \<rightharpoonup> string)" where
  "get_cloudformation_exports [] exports = exports"
| "get_cloudformation_exports (page # pages) exports =
     get_cloudformation_exports pages (exports ++ map_of (rev page))"

definition empty_override_raw :: json where
  "empty_override_raw = JObj [(''CREATE'', JObj [])]"

definition render_jinja ::
  "(json \<Rightarrow> segment list) \<Rightarrow> (string \<Rightarrow> error + json) \<Rightarrow> (string \<rightharpoonup> string) \<Rightarrow>
   json \<Rightarrow> error + json" where
  "render_jinja template loads exports overrides_raw =
     (let variables = find_undeclared_variables (template overrides_raw) in
      if variables \<noteq> [] then
        (let invalid_exports = filter (\<lambda>v. exports v = None) variables;
             var_map = exports |` set variables
         in if invalid_exports \<noteq> [] then Inr empty_override_raw
            else loads (render (template overrides_raw) var_map))
      else loads (render (template overrides_raw) Map.empty))"

subsection \<open>Loading the overrides\<close>

type_synonym overrides = "(string \<times> (string list \<times> json) list) list"

definition empty_override :: overrides where
  "empty_override = [(''CREATE'', [])]"

text \<open>
  \<^verbatim>\<open>OVERRIDES_VALIDATOR\<close>: the keywords \<^verbatim>\<open>properties\<close>, \<^verbatim>\<open>required\<close> and
  \<^verbatim>\<open>additionalProperties\<close> of JSON Schema constrain objects only, so a document
  that is not an object validates.
\<close>

definition is_object :: "json \<Rightarrow> bool" where
  "is_object v = (case v of JObj _ \<Rightarrow> True | _ \<Rightarrow> False)"

definition overrides_valid :: "json \<Rightarrow> bool" where
  "overrides_valid doc =
     (case doc of
        JObj kvs \<Rightarrow>
          (case map_of kvs ''CREATE'' of None \<Rightarrow> True | Some v \<Rightarrow> is_object v) \<and>
          (case map_of kvs ''UPDATE'' of None \<Rightarrow> True | Some v \<Rightarrow> is_object v) \<and>
          (map_of kvs ''CREATE'' \<noteq> None \<or> map_of kvs ''UPDATE'' \<noteq> None) \<and>
          list_all (\<lambda>(k, v). k = ''CREATE'' \<or> k = ''UPDATE'') kvs
      | _ \<Rightarrow> True)"

text \<open>The inner loop: an invalid pointer is skipped, a valid one is stored decoded.\<close>

fun decode_items ::
  "(string \<times> json) list \<Rightarrow> (string list \<times> json) list \<Rightarrow> (string list \<times> json) list" where
  "decode_items [] items = items"
| "decode_items ((pointer, obj) # items_raw) items =
     (case fragment_decode [] pointer of
        None \<Rightarrow> decode_items items_raw items
      | Some path \<Rightarrow> decode_items items_raw (AList.update path obj items))"

text \<open>The outer loop; \<^verbatim>\<open>items_raw.items()\<close> of a value that is no dict raises.\<close>

fun decode_operations :: "(string \<times> json) list \<Rightarrow> overrides \<Rightarrow> error + overrides" where
  "decode_operations [] overrides = Inr overrides"
| "decode_operations ((operation, items_raw) # rest) overrides =
     (case items_raw of
        JObj kvs \<Rightarrow>
          decode_operations rest (AList.update operation (decode_items kvs []) overrides)
      | _ \<Rightarrow> Inl AttributeError)"

text \<open>
  The file \<^verbatim>\<open>root / "overrides.json"\<close> as \<^verbatim>\<open>path.open\<close> and \<^verbatim>\<open>json.load\<close>
  find it.
\<close>

datatype overrides_file = Missing | Unparsable | Loaded json

definition get_overrides ::
  "(json \<Rightarrow> segment list) \<Rightarrow> (string \<Rightarrow> error + json) \<Rightarrow> (string \<rightharpoonup> string) \<Rightarrow>
   overrides_file option \<Rightarrow> error + overrides" where
  "get_overrides template loads exports root =
     (case root of
        None \<Rightarrow> Inr empty_override
      | Some Missing \<Rightarrow> Inr empty_override
      | Some Unparsable \<Rightarrow> Inl JSONDecodeError
      | Some (Loaded doc) \<Rightarrow>
          (case render_jinja template loads exports doc of
             Inl e \<Rightarrow> Inl e
           | Inr overrides_raw \<Rightarrow>
               if \<not> overrides_valid overrides_raw then Inr empty_override
               else (case overrides_raw of
                       JObj kvs \<Rightarrow> decode_operations kvs empty_override
                     | _ \<Rightarrow> Inl AttributeError)))"

text \<open>Templates of the test suite (\<^verbatim>\<open>tests/test_test.py\<close>).\<close>

definition test_template :: "json \<Rightarrow> segment list" where
  "test_template doc =
     [Text ''{CREATE: {/foo/bar: '', Variable ''TestExport'',
      Text '', /foo/bar2: '', Variable ''TestInvalidExport'', Text ''}}'']"

definition plain_template :: "json \<Rightarrow> segment list" where
  "plain_template doc = [Text ''doc'']"

section \<open>Schema normalizer\<close>

text \<open>
  The normalizer (\<^verbatim>\<open>rpdk/jsonutils/jsonschema_normalizer.py\<close>) and its helpers
  (\<^verbatim>\<open>pointer.py\<close>, \<^verbatim>\<open>utils.py\<close>) are not among the sources; only
  \<^verbatim>\<open>tests/jsonutils/test_jsonschema_normalizer.py\<close> is. The definitions of this
  section are modelled from section 4.1 of the specification, and from that test
  file wherever it fixes a behaviour. The tests that need no data file are replayed as
  lemmas further down.
\<close>

subsection \<open>Encoding pointers\<close>

text \<open>
  Modelled from the spec: the percent-encoding of a segment (section 3), as
  \<^verbatim>\<open>urllib.parse.quote(s, safe="")\<close> does it: every byte that is not unreserved
  becomes \<^verbatim>\<open>%XY\<close>; and the escapes \<^verbatim>\<open>~0\<close> and \<^verbatim>\<open>~1\<close> of RFC 6901.
\<close>

definition is_unreserved :: "char \<Rightarrow> bool" where
  "is_unreserved c =
     (let n = (of_char c :: nat) in
      (48 \<le> n \<and> n \<le> 57) \<or> (65 \<le> n \<and> n \<le> 90) \<or> (97 \<le> n \<and> n \<le> 122) \<or>
      c = CHR ''-'' \<or> c = CHR ''.'' \<or> c = CHR ''_'' \<or> c = CHR ''~'')"

definition hex_digit :: "nat \<Rightarrow> char" where
  "hex_digit n = ''0123456789ABCDEF'' ! n"

fun quote :: "string \<Rightarrow> string" where
  "quote [] = []"
| "quote (c # cs) =
     (if is_unreserved c then c # quote cs
      else CHR ''%'' # hex_digit (of_char c div 16) # hex_digit (of_char c mod 16) # quote cs)"

fun part_encode :: "string \<Rightarrow> string" where
  "part_encode [] = []"
| "part_encode (c # cs) =
     (if c = CHR ''~'' then ''~0'' @ part_encode cs
      else if c = CHR ''/'' then ''~1'' @ part_encode cs
      else c # part_encode cs)"

text \<open>
  Modelled from the spec: \<^verbatim>\<open>fragment_encode(parts, prefix)\<close> of
  \<^verbatim>\<open>rpdk.jsonutils.pointer\<close> (absent). Section 3: a schema pointer is an RFC 6901 style
  path whose segments are percent-encoded; \<^verbatim>\<open>test_collapse_array_type\<close> shows the
  pattern \<^verbatim>\<open>[A-Za-z0-9]{1,64}\<close> encoded as \<^verbatim>\<open>%5BA-Za-z0-9%5D%7B1%2C64%7D\<close>.
\<close>

definition fragment_encode :: "string list \<Rightarrow> string \<Rightarrow> string" where
  "fragment_encode parts prefix = prefix @ concat (map (\<lambda>p. ''/'' @ quote (part_encode p)) parts)"

text \<open>
  Modelled from the spec: the index of a branch as a segment of a synthesized pointer,
  and the reading of a segment as the index of an array.
\<close>

definition digit_char :: "nat \<Rightarrow> char" where
  "digit_char n = ''0123456789'' ! n"

fun string_of_nat :: "nat \<Rightarrow> string" where
  "string_of_nat n =
     (if n < 10 then [digit_char n] else string_of_nat (n div 10) @ [digit_char (n mod 10)])"

declare string_of_nat.simps [simp del]

fun parse_nat :: "string \<Rightarrow> nat \<Rightarrow> nat option" where
  "parse_nat [] acc = Some acc"
| "parse_nat (c # cs) acc =
     (let n = (of_char c :: nat) in
      if 48 \<le> n \<and> n \<le> 57 then parse_nat cs (10 * acc + (n - 48)) else None)"

definition nat_of_string :: "string \<Rightarrow> nat option" where
  "nat_of_string s = (if s = [] then None else parse_nat s 0)"

subsection \<open>Resolving a reference\<close>

text \<open>
  Modelled from the spec: \<^verbatim>\<open>traverse\<close> of \<^verbatim>\<open>rpdk.jsonutils.utils\<close> (absent).
  Section 4.1: the segments of a path are followed from the root, a key of an object or
  an index of an array. \<open>None\<close> when a segment is missing.
\<close>

fun traverse :: "json \<Rightarrow> string list \<Rightarrow> json option" where
  "traverse doc [] = Some doc"
| "traverse (JObj kvs) (seg # segs) =
     (case map_of kvs seg of None \<Rightarrow> None | Some v \<Rightarrow> traverse v segs)"
| "traverse (JArr xs) (seg # segs) =
     (case nat_of_string seg of
        None \<Rightarrow> None
      | Some i \<Rightarrow> if i < length xs then traverse (xs ! i) segs else None)"
| "traverse doc (seg # segs) = None"

text \<open>
  Modelled from the spec: \<^verbatim>\<open>_find_subschema_by_ref\<close> (absent). Section 4.1: the target
  is resolved against the root document by following its path segments, and the
  resolution fails with \<^verbatim>\<open>NormalizationError\<close>, naming the unresolved pointer, if any
  segment is missing (\<^verbatim>\<open>test_find_schema_from_ref\<close>).
\<close>

definition find_subschema_by_ref :: "json \<Rightarrow> string \<Rightarrow> error + json" where
  "find_subschema_by_ref full_schema ref_path =
     (case fragment_decode ''#'' ref_path of
        None \<Rightarrow> Inl (NormalizationError ref_path)
      | Some path_components \<Rightarrow>
          (case traverse full_schema path_components of
             None \<Rightarrow> Inl (NormalizationError ref_path)
           | Some sub_schema \<Rightarrow> Inr sub_schema))"

subsection \<open>Merging a combinator branch into its parent\<close>

text \<open>
  Modelled from the spec: concatenation with duplicates removed (section 4.1); the
  first occurrence of a value stays.
\<close>

definition dedup :: "'a list \<Rightarrow> 'a list" where
  "dedup xs = rev (remdups (rev xs))"

text \<open>
  Modelled from the spec: \<^verbatim>\<open>schema_merge\<close> of \<^verbatim>\<open>rpdk/jsonutils/utils.py\<close> (absent).
  Section 4.1: the merge goes key by key and the later branch wins; \<^verbatim>\<open>required\<close>
  arrays concatenate with duplicates removed; a scalar key is overwritten by the later
  branch. Where both sides hold a mapping under the same key the model merges the two
  mappings recursively: \<^verbatim>\<open>test_squash_array_keys_pattern_properties\<close> expects the
  entry \<^verbatim>\<open>{"$ref": "#/definitions"}\<close> of the node and the entry \<^verbatim>\<open>{"type": "object"}\<close>
  of the branch, under the same pattern, to become
  \<^verbatim>\<open>{"type": "object", "$ref": "#/definitions"}\<close>.
\<close>

function schema_merge ::
  "(string \<times> json) list \<Rightarrow> (string \<times> json) list \<Rightarrow> (string \<times> json) list" where
  "schema_merge target [] = target"
| "schema_merge target ((key, src_schema) # src) =
     schema_merge
       (case map_of target key of
          None \<Rightarrow> AList.update key src_schema target
        | Some target_schema \<Rightarrow>
            (case (target_schema, src_schema) of
               (JObj t, JObj s) \<Rightarrow> AList.update key (JObj (schema_merge t s)) target
             | (JArr a, JArr b) \<Rightarrow>
                 if key = ''required'' then AList.update key (JArr (dedup (a @ b))) target
                 else AList.update key src_schema target
             | _ \<Rightarrow> AList.update key src_schema target))
       src"
  by pat_completeness auto
termination
  by (relation "measure (\<lambda>(target, src). size_list (size_prod (\<lambda>_. 0) size) src)") auto

subsection \<open>The walk\<close>

text \<open>
  The schema map is a dict from pointer to resolved node, in insertion order. A walk
  returns the collapsed node and the updated map, or raises; \<open>None\<close> is a walk
  that has not returned within the recursion depth it was given.
\<close>

type_synonym schema_map = "(string \<times> json) list"

type_synonym 'a outcome = "(error + 'a) option"

type_synonym walker = "schema_map \<Rightarrow> string \<Rightarrow> json \<Rightarrow> (json \<times> schema_map) outcome"

definition and_then :: "'a outcome \<Rightarrow> ('a \<Rightarrow> 'b outcome) \<Rightarrow> 'b outcome" where
  "and_then r f = (case r of None \<Rightarrow> None | Some (Inl e) \<Rightarrow> Some (Inl e) | Some (Inr x) \<Rightarrow> f x)"

definition returns :: "'a \<Rightarrow> 'a outcome" where
  "returns x = Some (Inr x)"

definition raises :: "error \<Rightarrow> 'a outcome" where
  "raises e = Some (Inl e)"

definition ref :: "string \<Rightarrow> json" where
  "ref pointer = JObj [(''$ref'', JStr pointer)]"

text \<open>
  Modelled from the spec: the placeholder of section 4.1, the entry of a pointer whose
  node is being walked (\<^verbatim>\<open>test_walk_path_already_processed\<close> uses \<^verbatim>\<open>None\<close>).
\<close>

definition placeholder :: json where
  "placeholder = JNull"

text \<open>
  Modelled from the spec: \<^verbatim>\<open>_collapse_ref_type\<close> (absent).
  Section 4.1, \<^verbatim>\<open>$ref\<close> nodes: the target is resolved against the root document and the
  walk recurses into the target's own pointer. A target that is already a key of the
  map is not resolved again (\<^verbatim>\<open>test_overwrite_ref\<close> references a pointer that is in
  the map and not in the document). What the call site gets is what the walk of the
  target returns: \<^verbatim>\<open>test_walk_ref_to_primitive_type\<close> gets the primitive node itself,
  \<^verbatim>\<open>test_collapse_ref_type\<close> a reference to the target.
\<close>

definition collapse_ref_type :: "walker \<Rightarrow> json \<Rightarrow> schema_map \<Rightarrow> string \<Rightarrow> (json \<times> schema_map) outcome" where
  "collapse_ref_type w full_schema schema_map ref_path =
     (if ref_path \<in> keys schema_map then returns (ref ref_path, schema_map)
      else (case find_subschema_by_ref full_schema ref_path of
              Inl e \<Rightarrow> raises e
            | Inr sub_schema \<Rightarrow> w schema_map ref_path sub_schema))"

text \<open>
  Modelled from the spec: \<^verbatim>\<open>_collapse_array_type\<close> (absent).
  Section 4.1, array nodes: a schema-valued \<^verbatim>\<open>additionalItems\<close> is a
  \<^verbatim>\<open>ConstraintError\<close>; \<^verbatim>\<open>items\<close> is walked under the pointer of the array followed by
  \<^verbatim>\<open>/items\<close>, and the array itself is returned in place (\<^verbatim>\<open>test_collapse_array_type\<close>).
\<close>

definition collapse_array_type ::
  "walker \<Rightarrow> schema_map \<Rightarrow> string \<Rightarrow> (string \<times> json) list \<Rightarrow> (json \<times> schema_map) outcome" where
  "collapse_array_type w schema_map key sub_schema =
     (case map_of sub_schema ''additionalItems'' of
        Some (JObj _) \<Rightarrow> raises (ConstraintError AdditionalItems key)
      | _ \<Rightarrow>
          (case map_of sub_schema ''items'' of
             None \<Rightarrow> returns (JObj sub_schema, schema_map)
           | Some items \<Rightarrow>
               and_then (w schema_map (fragment_encode [''items''] key) items)
                 (\<lambda>(walked, schema_map').
                    returns (JObj (AList.update ''items'' walked sub_schema), schema_map'))))"

text \<open>
  Modelled from the spec: the loop of \<^verbatim>\<open>_collapse_object_type\<close> (absent) over the
  entries of \<^verbatim>\<open>properties\<close> or \<^verbatim>\<open>patternProperties\<close>, each walked under the pointer
  of the node followed by the keyword and the name (section 4.1, with the name
  percent-encoded into the synthesized pointer).
\<close>

fun walk_entries ::
  "walker \<Rightarrow> schema_map \<Rightarrow> string \<Rightarrow> string \<Rightarrow> (string \<times> json) list \<Rightarrow>
   ((string \<times> json) list \<times> schema_map) outcome" where
  "walk_entries w schema_map key kind [] = returns ([], schema_map)"
| "walk_entries w schema_map key kind ((name, prop_schema) # rest) =
     and_then (w schema_map (fragment_encode [kind, name] key) prop_schema)
       (\<lambda>(walked, schema_map').
          and_then (walk_entries w schema_map' key kind rest)
            (\<lambda>(new_properties, schema_map'').
               returns ((name, walked) # new_properties, schema_map'')))"

text \<open>
  Modelled from the spec: \<^verbatim>\<open>_squash_array_keys\<close> (absent).
  Section 4.1, combinators: each branch is walked, under the pointer of the node
  followed by the combinator key and the index of the branch, and merged into the
  parent. The branch is merged as resolved: if the walk recorded it under its pointer,
  the recorded node is taken and the entry, which nothing else used before, is removed
  again (the tests of \<^verbatim>\<open>_squash_array_keys\<close> find no entry left in the map, and
  \<^verbatim>\<open>test_overwrite_ref\<close> finds the entries that were there before).
\<close>

definition resolve_branch :: "bool \<Rightarrow> string \<Rightarrow> json \<Rightarrow> schema_map \<Rightarrow> json \<times> schema_map" where
  "resolve_branch ref_path_is_used ref_path walked_schema schema_map =
     (case map_of schema_map ref_path of
        None \<Rightarrow> (walked_schema, schema_map)
      | Some recorded \<Rightarrow>
          if ref_path_is_used then (recorded, schema_map)
          else (recorded, AList.delete ref_path schema_map))"

fun flatten_branches ::
  "walker \<Rightarrow> string \<Rightarrow> string \<Rightarrow> nat \<Rightarrow> json list \<Rightarrow> (string \<times> json) list \<Rightarrow> schema_map \<Rightarrow>
   ((string \<times> json) list \<times> schema_map) outcome" where
  "flatten_branches w path arr_key i [] sub_schema schema_map = returns (sub_schema, schema_map)"
| "flatten_branches w path arr_key i (nested_schema # rest) sub_schema schema_map =
     (let ref_path = fragment_encode [arr_key, string_of_nat i] path;
          ref_path_is_used = (ref_path \<in> keys schema_map)
      in and_then (w schema_map ref_path nested_schema)
           (\<lambda>(walked_schema, schema_map').
              (case resolve_branch ref_path_is_used ref_path walked_schema schema_map' of
                 (resolved_schema, schema_map'') \<Rightarrow>
                   (case resolved_schema of
                      JObj resolved \<Rightarrow>
                        flatten_branches w path arr_key (Suc i) rest
                          (schema_merge sub_schema resolved) schema_map''
                    | _ \<Rightarrow> raises TypeError))))"

definition COMBINERS :: "string list" where
  "COMBINERS = [''allOf'', ''anyOf'', ''oneOf'']"

fun flatten_keys ::
  "walker \<Rightarrow> string \<Rightarrow> (string \<times> json) list \<Rightarrow> string list \<Rightarrow> (string \<times> json) list \<Rightarrow>
   schema_map \<Rightarrow> ((string \<times> json) list \<times> schema_map) outcome" where
  "flatten_keys w path declared [] sub_schema schema_map = returns (sub_schema, schema_map)"
| "flatten_keys w path declared (arr_key # arr_keys) sub_schema schema_map =
     (case map_of declared arr_key of
        None \<Rightarrow> flatten_keys w path declared arr_keys sub_schema schema_map
      | Some (JArr schema_array) \<Rightarrow>
          and_then (flatten_branches w path arr_key 0 schema_array sub_schema schema_map)
            (\<lambda>(sub_schema', schema_map').
               flatten_keys w path declared arr_keys sub_schema' schema_map')
      | Some _ \<Rightarrow> raises TypeError)"

text \<open>
  Modelled from the spec: section 4.1, after merging, the combinator keys are stripped
  from the result.
\<close>

definition strip_combiners :: "(string \<times> json) list \<Rightarrow> (string \<times> json) list" where
  "strip_combiners sub_schema = filter (\<lambda>(k, v). k \<notin> set COMBINERS) sub_schema"

definition flatten_combiners ::
  "walker \<Rightarrow> schema_map \<Rightarrow> string \<Rightarrow> (string \<times> json) list \<Rightarrow>
   ((string \<times> json) list \<times> schema_map) outcome" where
  "flatten_combiners w schema_map path sub_schema =
     and_then (flatten_keys w path sub_schema COMBINERS sub_schema schema_map)
       (\<lambda>(merged, schema_map'). returns (strip_combiners merged, schema_map'))"

text \<open>
  Modelled from the spec: \<^verbatim>\<open>_collapse_object_type\<close> (absent).
  Section 4.1, object nodes: after the combinators are flattened, a schema-valued
  \<^verbatim>\<open>additionalProperties\<close> and a node declaring both \<^verbatim>\<open>properties\<close> and
  \<^verbatim>\<open>patternProperties\<close> are a \<^verbatim>\<open>ConstraintError\<close>. A node with \<^verbatim>\<open>properties\<close>
  has its properties walked, is recorded under its pointer afterwards, in the place of
  the placeholder, and a reference to the pointer is returned. A node with
  \<^verbatim>\<open>patternProperties\<close> only is collapsed in place, and a node with neither is
  returned as it is (\<^verbatim>\<open>test_walk_primitive_type\<close>, \<^verbatim>\<open>test_collapse_array_type\<close>).
\<close>

definition collapse_object_type ::
  "walker \<Rightarrow> schema_map \<Rightarrow> string \<Rightarrow> (string \<times> json) list \<Rightarrow> (json \<times> schema_map) outcome" where
  "collapse_object_type w schema_map key sub_schema =
     and_then (flatten_combiners w schema_map key sub_schema)
       (\<lambda>(sub_schema, schema_map).
          (case map_of sub_schema ''additionalProperties'' of
             Some (JObj _) \<Rightarrow> raises (ConstraintError AdditionalProperties key)
           | _ \<Rightarrow>
               if ''properties'' \<in> keys sub_schema \<and> ''patternProperties'' \<in> keys sub_schema
               then raises (ConstraintError MutuallyExclusive key)
               else
                 (case map_of sub_schema ''properties'' of
                    Some (JObj properties) \<Rightarrow>
                      and_then (walk_entries w schema_map key ''properties'' properties)
                        (\<lambda>(new_properties, schema_map').
                           returns
                             (ref key,
                              AList.update key
                                (JObj (AList.update ''properties'' (JObj new_properties) sub_schema))
                                schema_map'))
                  | Some _ \<Rightarrow> raises TypeError
                  | None \<Rightarrow>
                      (case map_of sub_schema ''patternProperties'' of
                         Some (JObj pattern_properties) \<Rightarrow>
                           and_then
                             (walk_entries w schema_map key ''patternProperties'' pattern_properties)
                             (\<lambda>(new_pattern_properties, schema_map').
                                returns
                                  (JObj (AList.update ''patternProperties''
                                           (JObj new_pattern_properties) sub_schema),
                                   schema_map'))
                       | Some _ \<Rightarrow> raises TypeError
                       | None \<Rightarrow> returns (JObj sub_schema, schema_map)))))"

text \<open>
  Modelled from the spec: one call of \<^verbatim>\<open>_walk\<close> (absent), with \<open>w\<close> for the recursive
  calls. Section 4.1: a pointer that is a key of the map, placeholder or resolved node,
  is answered by a reference to it before the node is looked at
  (\<^verbatim>\<open>test_walk_path_already_processed\<close>). Otherwise a placeholder for the pointer is
  put into the map before the node is collapsed, so that a reference that leads back
  to the pointer is answered by a reference. A node with \<^verbatim>\<open>$ref\<close> is a reference; a
  schema without a type is an object (\<^verbatim>\<open>test_walk_oneof_becomes_invalid\<close>); a
  primitive node is returned unchanged. A pointer under which nothing was recorded
  loses its placeholder again: the tests find nothing in the map after the walk of a
  primitive node, of a reference to one, and of an array.
\<close>

definition walk_body :: "walker \<Rightarrow> json \<Rightarrow> walker" where
  "walk_body w full_schema schema_map property_path sub_schema =
     (if property_path \<in> keys schema_map then returns (ref property_path, schema_map)
      else
        (let schema_map = AList.update property_path placeholder schema_map in
         and_then
           (case sub_schema of
              JObj kvs \<Rightarrow>
                (case map_of kvs ''$ref'' of
                   Some (JStr ref_path) \<Rightarrow> collapse_ref_type w full_schema schema_map ref_path
                 | Some _ \<Rightarrow> raises TypeError
                 | None \<Rightarrow>
                     (let json_type =
                            (case map_of kvs ''type'' of None \<Rightarrow> JStr ''object'' | Some t \<Rightarrow> t)
                      in if json_type = JStr ''array''
                         then collapse_array_type w schema_map property_path kvs
                         else if json_type = JStr ''object''
                         then collapse_object_type w schema_map property_path kvs
                         else returns (JObj kvs, schema_map)))
            | _ \<Rightarrow> raises TypeError)
           (\<lambda>(collapsed, schema_map).
              (case map_of schema_map property_path of
                 None \<Rightarrow> raises (KeyError property_path)
               | Some entry \<Rightarrow>
                   if entry = placeholder
                   then returns (collapsed, AList.delete property_path schema_map)
                   else returns (collapsed, schema_map)))))"

text \<open>Modelled from the spec: \<^verbatim>\<open>_walk\<close> with recursion depth at most \<open>n\<close>.\<close>

primrec walk :: "nat \<Rightarrow> json \<Rightarrow> walker" where
  "walk 0 full_schema = (\<lambda>schema_map property_path sub_schema. None)"
| "walk (Suc n) full_schema = walk_body (walk n full_schema) full_schema"

text \<open>
  Modelled from the spec: \<^verbatim>\<open>collapse_and_resolve_schema\<close> (absent): the walk of the
  root document from the pointer \<^verbatim>\<open>#\<close> and the empty map; the map is the result.
\<close>

definition collapse_and_resolve_schema :: "nat \<Rightarrow> json \<Rightarrow> schema_map outcome" where
  "collapse_and_resolve_schema n full_schema =
     and_then (walk n full_schema [] ''#'' full_schema) (\<lambda>(resolved, schema_map). returns schema_map)"


text \<open>
  A small document in the style of the test data: a definition with properties, a
  primitive definition, and two properties that reference the first.
\<close>

definition area_schema :: json where
  "area_schema =
     JObj [(''definitions'',
            JObj [(''coordinate'',
                   JObj [(''type'', JStr ''object''),
                         (''properties'', JObj [(''lat'', JObj [(''type'', JStr ''number'')])])]),
                  (''name'', JObj [(''type'', JStr ''string'')])]),
           (''properties'',
            JObj [(''north'', JObj [(''$ref'', JStr ''#/definitions/coordinate'')]),
                  (''south'', JObj [(''$ref'', JStr ''#/definitions/coordinate'')])])]"

section \<open>Contract suite\<close>

text \<open>
  The scenarios of \<^verbatim>\<open>src/rpdk/core/contract/suite\<close> drive a resource client. The client
  (\<^verbatim>\<open>resource_client.py\<close>), the enumerations (\<^verbatim>\<open>interface.py\<close>) and the helpers of
  the suite (\<^verbatim>\<open>contract_asserts.py\<close>, \<^verbatim>\<open>handler_commons.py\<close>) are not among the
  sources: the client enters the model as a record of parameters, and what the
  specification says about it is stated where it is used.
\<close>

datatype action = CREATE | READ | UPDATE | DELETE | LIST

datatype operation_status = PENDING | IN_PROGRESS | SUCCESS | FAILED

datatype handler_error_code =
    NotFound
  | AlreadyExists
  | NoOperationToPerform
  | InvalidRequest
  | ServiceInternalError
  | NetworkFailure
  | Throttling
  | GeneralServiceException

record progress_event =
  status :: operation_status
  resourceModel :: "json option"
  errorCode :: "handler_error_code option"
  message :: "string option"

text \<open>
  The parameters of a client over a handler with states \<open>'w\<close>. \<open>invoke\<close> is one
  invocation of the handler driven to its last progress event; it raises when the
  exchange is abandoned. The example generators and the comparison of a requested
  model with a returned one belong to the absent client: \<open>generate_create_example\<close>
  and \<open>update_example\<close> are the models it synthesizes from the schema, and
  \<open>read_only_example\<close> is the value it synthesizes for a readOnly property.
\<close>

record 'w resource_client =
  read_only_paths :: "string list list"
  primary_identifier_paths :: "string list list"
  generate_create_example :: json
  update_example :: json
  read_only_example :: json
  input_equals_output :: "json \<Rightarrow> json \<Rightarrow> bool"
  invoke :: "action \<Rightarrow> json \<Rightarrow> json option \<Rightarrow> 'w \<Rightarrow> (error + progress_event) \<times> 'w"

text \<open>A run is the state of the handler and the invocations issued so far, in order.\<close>

type_synonym 'w run = "'w \<times> (action \<times> json) list"

text \<open>
  Modelled from the spec: \<^verbatim>\<open>call\<close> of the absent client. Section 4.3: a single
  exchange with the handler, without retry; the invocation is added to the run.
\<close>

definition call ::
  "'w resource_client \<Rightarrow> action \<Rightarrow> json \<Rightarrow> json option \<Rightarrow> 'w run \<Rightarrow>
   (error + progress_event) \<times> 'w run" where
  "call c act model previous s =
     (case s of (w, trace) \<Rightarrow>
        (case invoke c act model previous w of
           (r, w') \<Rightarrow> (r, (w', trace @ [(act, model)]))))"

text \<open>
  Modelled from the spec: \<^verbatim>\<open>call_and_assert\<close> of the absent client. Section 4.3: on
  termination the final status must equal the expected status, and a \<^verbatim>\<open>FAILED\<close>
  event must carry an error code of the taxonomy and a non-empty message. It returns
  the status, the response and the error code.
\<close>

definition call_and_assert ::
  "'w resource_client \<Rightarrow> action \<Rightarrow> operation_status \<Rightarrow> json \<Rightarrow> json option \<Rightarrow> 'w run \<Rightarrow>
   (error + operation_status \<times> progress_event \<times> handler_error_code option) \<times> 'w run" where
  "call_and_assert c act assert_status model previous s =
     (case call c act model previous s of
        (Inl e, s') \<Rightarrow> (Inl e, s')
      | (Inr response, s') \<Rightarrow>
          if status response \<noteq> assert_status then (Inl AssertionError, s')
          else if status response = FAILED then
            (case errorCode response of
               None \<Rightarrow> (Inl AssertionError, s')
             | Some code \<Rightarrow>
                 (case message response of
                    None \<Rightarrow> (Inl AssertionError, s')
                  | Some msg \<Rightarrow>
                      if msg = [] then (Inl AssertionError, s')
                      else (Inr (status response, response, Some code), s')))
          else (Inr (status response, response, None), s'))"

datatype verdict = Passed | Skipped | Failed error

subsection \<open>Resource models\<close>

text \<open>A path into a resource model is the list of the property names on the way.\<close>

fun get_path :: "json \<Rightarrow> string list \<Rightarrow> json option" where
  "get_path doc [] = Some doc"
| "get_path (JObj kvs) (k # ks) = (case map_of kvs k of None \<Rightarrow> None | Some v \<Rightarrow> get_path v ks)"
| "get_path doc (k # ks) = None"

fun set_path :: "json \<Rightarrow> string list \<Rightarrow> json \<Rightarrow> json" where
  "set_path doc [] v = v"
| "set_path (JObj kvs) (k # ks) v =
     JObj (AList.update k
             (set_path (case map_of kvs k of None \<Rightarrow> JObj [] | Some sub \<Rightarrow> sub) ks v) kvs)"
| "set_path doc (k # ks) v = JObj [(k, set_path (JObj []) ks v)]"

text \<open>
  Modelled from the spec: \<^verbatim>\<open>generate_invalid_create_example\<close> of the absent client.
  Section 4.2: \<^verbatim>\<open>generate_create_example\<close> omits the readOnly paths, and
  \<^verbatim>\<open>generate_invalid_create_example\<close> deliberately sets a value at a readOnly path.
  The model sets the synthesized value at the first readOnly path of the create example.
\<close>

definition generate_invalid_create_example :: "'w resource_client \<Rightarrow> json" where
  "generate_invalid_create_example c =
     (case read_only_paths c of
        [] \<Rightarrow> generate_create_example c
      | p # ps \<Rightarrow> set_path (generate_create_example c) p (read_only_example c))"

subsection \<open>handler\_create.py\<close>

text \<open>
  \<^verbatim>\<open>_create_with_invalid_model\<close>, without its decorator. The \<^verbatim>\<open>finally\<close> clause runs
  on every way out of the \<^verbatim>\<open>try\<close> block; an exception of the clause replaces the
  outcome of the block. \<^verbatim>\<open>response["message"]\<close> of a response without a message is a
  \<^verbatim>\<open>KeyError\<close>, and the assertion fails on an empty message.
\<close>

definition create_with_invalid_model ::
  "'w resource_client \<Rightarrow> 'w run \<Rightarrow> (error + handler_error_code option) \<times> 'w run" where
  "create_with_invalid_model c s =
     (let requested_model = generate_invalid_create_example c in
      (case call_and_assert c CREATE FAILED requested_model None s of
         (r, s1) \<Rightarrow>
           (let body =
                  (case r of
                     Inl e \<Rightarrow> Inl e
                   | Inr (st, response, error_code) \<Rightarrow>
                       (case message response of
                          None \<Rightarrow> Inl (KeyError ''message'')
                        | Some msg \<Rightarrow> if msg = [] then Inl AssertionError else Inr error_code))
            in (case call c DELETE requested_model None s1 of
                  (Inl e, s2) \<Rightarrow> (Inl e, s2)
                | (Inr _, s2) \<Rightarrow> (body, s2)))))"

text \<open>
  Modelled from the spec: the decorator \<^verbatim>\<open>failed_event(error_code=...)\<close> of the absent
  \<^verbatim>\<open>contract_asserts.py\<close>. Section 4.4: the create must fail with the given error code.
\<close>

definition failed_event ::
  "handler_error_code \<Rightarrow> (error + handler_error_code option) \<times> 'w run \<Rightarrow> verdict \<times> 'w run" where
  "failed_event error_code r =
     (case r of
        (Inl e, s) \<Rightarrow> (Failed e, s)
      | (Inr response_error, s) \<Rightarrow>
          if response_error = Some error_code then (Passed, s) else (Failed AssertionError, s))"

definition contract_invalid_create :: "'w resource_client \<Rightarrow> 'w run \<Rightarrow> verdict \<times> 'w run" where
  "contract_invalid_create c s =
     (if read_only_paths c \<noteq> [] then failed_event InvalidRequest (create_with_invalid_model c s)
      else (Skipped, s))"

subsection \<open>handler\_update.py\<close>







text \<open>
  A handler that rejects every create, one that keeps what it is given, and one that
  answers an update with a new identifier.
\<close>

definition rejecting_client :: "unit resource_client" where
  "rejecting_client =
     \<lparr> read_only_paths = [[''Arn'']],
       primary_identifier_paths = [[''Id'']],
       generate_create_example = JObj [(''Name'', JStr ''n'')],
       update_example = JObj [(''Name'', JStr ''m'')],
       read_only_example = JStr ''a'',
       input_equals_output = (\<lambda>a b. True),
       invoke = (\<lambda>act model previous w.
         (Inr \<lparr> status = (if act = CREATE then FAILED else SUCCESS), resourceModel = None,
                errorCode = (if act = CREATE then Some InvalidRequest else None),
                message = (if act = CREATE then Some ''readOnly'' else None) \<rparr>, w)) \<rparr>"


section \<open>Properties of the overrides\<close>

lemma set_update_cases:
  "(a, b) \<in> set (AList.update k v al) \<Longrightarrow> (a, b) = (k, v) \<or> (a, b) \<in> set al"
  by (induction al) (auto split: if_splits)

lemma decode_items_keys:
  "keys (decode_items items_raw items) =
     keys items \<union> {path. \<exists>pointer obj. (pointer, obj) \<in> set items_raw \<and>
                                   fragment_decode [] pointer = Some path}"
proof (induction items_raw items rule: decode_items.induct)
  case (1 items)
  then show ?case by simp
next
  case (2 pointer obj items_raw items)
  show ?case
  proof (cases "fragment_decode [] pointer")
    case None
    with 2 show ?thesis by auto
  next
    case (Some path)
    with 2 have "keys (decode_items ((pointer, obj) # items_raw) items) =
      keys (AList.update path obj items) \<union>
      {path. \<exists>pointer obj. (pointer, obj) \<in> set items_raw \<and> fragment_decode [] pointer = Some path}"
      by simp
    also have "keys (AList.update path obj items) = insert path (keys items)"
      by (simp add: keys_def dom_update)
    finally show ?thesis using Some by auto
  qed
qed

lemma decode_items_entries:
  "(path, obj) \<in> set (decode_items items_raw items) \<Longrightarrow>
   (path, obj) \<in> set items \<or>
   (\<exists>pointer. (pointer, obj) \<in> set items_raw \<and> fragment_decode [] pointer = Some path)"
proof (induction items_raw items rule: decode_items.induct)
  case (1 items)
  then show ?case by simp
next
  case (2 pointer obj' items_raw items)
  show ?case
  proof (cases "fragment_decode [] pointer")
    case None
    with 2 show ?thesis by auto
  next
    case (Some path')
    with 2 have "(path, obj) \<in> set (AList.update path' obj' items) \<or>
      (\<exists>pointer. (pointer, obj) \<in> set items_raw \<and> fragment_decode [] pointer = Some path)"
      by simp
    then show ?thesis using Some by (auto dest: set_update_cases)
  qed
qed

lemma decode_operations_objects:
  "\<forall>(k, v)\<in>set kvs. is_object v \<Longrightarrow> distinct (map fst kvs) \<Longrightarrow>
   \<exists>ov. decode_operations kvs acc = Inr ov \<and>
        (\<forall>op items. (op, JObj items) \<in> set kvs \<longrightarrow> map_of ov op = Some (decode_items items [])) \<and>
        (\<forall>op. op \<notin> keys kvs \<longrightarrow> map_of ov op = map_of acc op)"
proof (induction kvs acc rule: decode_operations.induct)
  case (1 overrides)
  then show ?case by (simp add: keys_def)
next
  case (2 operation items_raw rest overrides)
  from "2.prems" obtain items where items: "items_raw = JObj items"
    by (auto simp: is_object_def split: json.splits)
  from "2.prems" have rest: "\<forall>(k, v)\<in>set rest. is_object v" "distinct (map fst rest)"
    and fresh: "operation \<notin> keys rest"
    by (auto simp: keys_def)
  from "2.IH" [OF items rest]
  obtain ov where ov: "decode_operations rest (AList.update operation (decode_items items []) overrides) = Inr ov"
    "\<forall>op its. (op, JObj its) \<in> set rest \<longrightarrow> map_of ov op = Some (decode_items its [])"
    "\<forall>op. op \<notin> keys rest \<longrightarrow>
       map_of ov op = map_of (AList.update operation (decode_items items []) overrides) op"
    by blast
  have "decode_operations ((operation, items_raw) # rest) overrides = Inr ov"
    using ov(1) items by simp
  moreover have "\<forall>op its. (op, JObj its) \<in> set ((operation, items_raw) # rest) \<longrightarrow>
      map_of ov op = Some (decode_items its [])"
    using ov(2,3) fresh items by (auto simp: update_conv')
  moreover have "\<forall>op. op \<notin> keys ((operation, items_raw) # rest) \<longrightarrow> map_of ov op = map_of overrides op"
    using ov(3) by (auto simp: keys_def update_conv')
  ultimately show ?case by blast
qed

lemma overrides_valid_objects:
  assumes "overrides_valid (JObj kvs)" and "distinct (map fst kvs)"
  shows "\<forall>(k, v)\<in>set kvs. is_object v"
proof (clarify)
  fix k v
  assume kv: "(k, v) \<in> set kvs"
  with assms(2) have m: "map_of kvs k = Some v"
    by simp
  from assms(1) kv have "k = ''CREATE'' \<or> k = ''UPDATE''"
    by (auto simp: overrides_valid_def list_all_iff)
  with assms(1) m show "is_object v"
    by (auto simp: overrides_valid_def)
qed

text \<open>
  C9. \<^verbatim>\<open>get_overrides\<close> returns the empty override \<^verbatim>\<open>{"CREATE": {}}\<close> instead of
  raising for a falsy project root, for a missing \<^verbatim>\<open>overrides.json\<close> and for a
  rendered document that fails the schema validation. For a valid document (an object
  with distinct keys), every operation is returned with exactly the decoded paths of
  its valid pointers as keys: an invalid pointer is skipped, and every stored entry
  is the value of a pointer that decodes to its path.
\<close>

theorem get_overrides_total:
  "get_overrides template loads exports None = Inr empty_override \<and>
   get_overrides template loads exports (Some Missing) = Inr empty_override \<and>
   (render_jinja template loads exports doc = Inr overrides_raw \<and> \<not> overrides_valid overrides_raw \<longrightarrow>
      get_overrides template loads exports (Some (Loaded doc)) = Inr empty_override) \<and>
   (render_jinja template loads exports doc = Inr (JObj kvs) \<and> overrides_valid (JObj kvs) \<and>
    distinct (map fst kvs) \<longrightarrow>
      (\<exists>overrides. get_overrides template loads exports (Some (Loaded doc)) = Inr overrides \<and>
         (\<forall>operation items_raw. (operation, JObj items_raw) \<in> set kvs \<longrightarrow>
            (\<exists>items. map_of overrides operation = Some items \<and>
               keys items = {path. \<exists>pointer obj. (pointer, obj) \<in> set items_raw \<and>
                                      fragment_decode [] pointer = Some path} \<and>
               (\<forall>path obj. (path, obj) \<in> set items \<longrightarrow>
                  (\<exists>pointer. (pointer, obj) \<in> set items_raw \<and>
                             fragment_decode [] pointer = Some path))))))"
proof (intro conjI impI)
  show "get_overrides template loads exports None = Inr empty_override"
    by (simp add: get_overrides_def)
  show "get_overrides template loads exports (Some Missing) = Inr empty_override"
    by (simp add: get_overrides_def)
next
  assume "render_jinja template loads exports doc = Inr overrides_raw \<and> \<not> overrides_valid overrides_raw"
  then show "get_overrides template loads exports (Some (Loaded doc)) = Inr empty_override"
    by (simp add: get_overrides_def)
next
  assume a: "render_jinja template loads exports doc = Inr (JObj kvs) \<and> overrides_valid (JObj kvs) \<and>
    distinct (map fst kvs)"
  then have "\<forall>(k, v)\<in>set kvs. is_object v"
    using overrides_valid_objects [of kvs] by blast
  from decode_operations_objects [OF this, of empty_override] a
  obtain ov where ov: "decode_operations kvs empty_override = Inr ov"
    "\<forall>op items. (op, JObj items) \<in> set kvs \<longrightarrow> map_of ov op = Some (decode_items items [])"
    by blast
  have "get_overrides template loads exports (Some (Loaded doc)) = Inr ov"
    using a ov(1) by (simp add: get_overrides_def)
  moreover have "\<exists>items. map_of ov operation = Some items \<and>
               keys items = {path. \<exists>pointer obj. (pointer, obj) \<in> set items_raw \<and>
                                      fragment_decode [] pointer = Some path} \<and>
               (\<forall>path obj. (path, obj) \<in> set items \<longrightarrow>
                  (\<exists>pointer. (pointer, obj) \<in> set items_raw \<and>
                             fragment_decode [] pointer = Some path))"
    if "(operation, JObj items_raw) \<in> set kvs" for operation items_raw
  proof -
    from that ov(2) have "map_of ov operation = Some (decode_items items_raw [])"
      by blast
    moreover have "keys (decode_items items_raw []) =
      {path. \<exists>pointer obj. (pointer, obj) \<in> set items_raw \<and> fragment_decode [] pointer = Some path}"
      using decode_items_keys [of items_raw "[]"] by (simp add: keys_def [of "[]"])
    moreover have "\<forall>path obj. (path, obj) \<in> set (decode_items items_raw []) \<longrightarrow>
      (\<exists>pointer. (pointer, obj) \<in> set items_raw \<and> fragment_decode [] pointer = Some path)"
      using decode_items_entries [of _ _ items_raw "[]"] by auto
    ultimately show ?thesis by blast
  qed
  ultimately show "\<exists>overrides. get_overrides template loads exports (Some (Loaded doc)) = Inr overrides \<and>
         (\<forall>operation items_raw. (operation, JObj items_raw) \<in> set kvs \<longrightarrow>
            (\<exists>items. map_of overrides operation = Some items \<and>
               keys items = {path. \<exists>pointer obj. (pointer, obj) \<in> set items_raw \<and>
                                      fragment_decode [] pointer = Some path} \<and>
               (\<forall>path obj. (path, obj) \<in> set items \<longrightarrow>
                  (\<exists>pointer. (pointer, obj) \<in> set items_raw \<and>
                             fragment_decode [] pointer = Some path))))"
    by blast
qed

lemma test_get_overrides_no_root:
  "get_overrides t l e None = Inr empty_override"
  by (simp add: get_overrides_def)

lemma test_get_overrides_invalid_file:
  "get_overrides plain_template (\<lambda>s. Inr (JObj [])) Map.empty (Some (Loaded (JObj []))) = Inr empty_override"
  by (simp add: get_overrides_def render_jinja_def plain_template_def find_undeclared_variables_def overrides_valid_def)

lemma test_get_overrides_invalid_pointer_skipped:
  "get_overrides plain_template (\<lambda>s. Inr (JObj [(''CREATE'', JObj [(''#/foo/bar'', JNull)])])) Map.empty
     (Some (Loaded (JObj [(''CREATE'', JObj [(''#/foo/bar'', JNull)])]))) = Inr empty_override"
  by (simp add: get_overrides_def render_jinja_def plain_template_def find_undeclared_variables_def
      overrides_valid_def is_object_def fragment_decode_def empty_override_def)

lemma test_get_overrides_good_path:
  "get_overrides plain_template (\<lambda>s. Inr (JObj [(''CREATE'', JObj [(''/foo/bar'', JObj [])])])) Map.empty
     (Some (Loaded (JObj [(''CREATE'', JObj [(''/foo/bar'', JObj [])])])))
   = Inr [(''CREATE'', [([''foo'', ''bar''], JObj [])])]"
  by (simp add: get_overrides_def render_jinja_def plain_template_def find_undeclared_variables_def
      overrides_valid_def is_object_def fragment_decode_def empty_override_def)

theorem get_overrides_total_witness:
  "\<exists>overrides.
     get_overrides plain_template
       (\<lambda>s. Inr (JObj [(''CREATE'', JObj [(''#/foo/bar'', JNull), (''/foo/bar'', JObj [])])]))
       Map.empty (Some (Loaded JNull)) = Inr overrides \<and>
     (\<exists>items. map_of overrides ''CREATE'' = Some items \<and> keys items = {[''foo'', ''bar'']})"
proof -
  let ?kvs = "[(''CREATE'', JObj [(''#/foo/bar'', JNull), (''/foo/bar'', JObj [])])]"
  have r: "render_jinja plain_template (\<lambda>s. Inr (JObj ?kvs)) Map.empty JNull = Inr (JObj ?kvs)"
    by (simp add: render_jinja_def plain_template_def find_undeclared_variables_def)
  have v: "overrides_valid (JObj ?kvs)"
    by (simp add: overrides_valid_def is_object_def)
  have d: "distinct (map fst ?kvs)" by simp
  have k: "{path. \<exists>pointer obj. (pointer, obj) \<in> set [(''#/foo/bar'', JNull), (''/foo/bar'', JObj [])] \<and>
              fragment_decode [] pointer = Some path} = {[''foo'', ''bar'']}"
    by (auto simp: fragment_decode_def)
  from get_overrides_total [of plain_template "\<lambda>s. Inr (JObj ?kvs)" Map.empty JNull "JObj ?kvs" ?kvs]
    r v d
  show ?thesis unfolding k [symmetric] by fastforce
qed

lemma render_restrict:
  "set (variable_names segs) \<subseteq> V \<Longrightarrow> \<forall>v\<in>set (variable_names segs). exports v \<noteq> None \<Longrightarrow>
   render segs (exports |` V) =
     concat (map (\<lambda>s. case s of Text t \<Rightarrow> t | Variable v \<Rightarrow> the (exports v)) segs)"
  by (induction segs "exports |` V" rule: render.induct) (auto simp: restrict_map_def)

lemma render_no_variables:
  "variable_names segs = [] \<Longrightarrow>
   render segs var_map =
     concat (map (\<lambda>s. case s of Text t \<Rightarrow> t | Variable v \<Rightarrow> the (exports v)) segs)"
  by (induction segs var_map rule: render.induct) auto

text \<open>
  C10. The Jinja substitution is all or nothing: when some variable of the template is
  not a CloudFormation export, \<^verbatim>\<open>render_jinja\<close> returns the empty override
  \<^verbatim>\<open>{"CREATE": {}}\<close> whatever the other variables resolve to; when every variable
  is an export, the document is loaded from the text in which each variable is replaced
  by the value of its export.
\<close>

theorem render_jinja_all_or_nothing:
  "((\<exists>v\<in>set (variable_names (template raw)). exports v = None) \<longrightarrow>
      render_jinja template loads exports raw = Inr empty_override_raw) \<and>
   ((\<forall>v\<in>set (variable_names (template raw)). exports v \<noteq> None) \<longrightarrow>
      render_jinja template loads exports raw =
        loads (concat (map (\<lambda>s. case s of Text t \<Rightarrow> t | Variable v \<Rightarrow> the (exports v))
                 (template raw))))"
proof (intro conjI impI)
  assume "\<exists>v\<in>set (variable_names (template raw)). exports v = None"
  then obtain v where v: "v \<in> set (variable_names (template raw))" "exports v = None"
    by blast
  then have "v \<in> set (filter (\<lambda>v. exports v = None) (find_undeclared_variables (template raw)))"
    by (simp add: find_undeclared_variables_def)
  then have "filter (\<lambda>v. exports v = None) (find_undeclared_variables (template raw)) \<noteq> []"
    and "find_undeclared_variables (template raw) \<noteq> []"
    by (auto simp: filter_empty_conv)
  then show "render_jinja template loads exports raw = Inr empty_override_raw"
    by (simp add: render_jinja_def Let_def)
next
  assume ok: "\<forall>v\<in>set (variable_names (template raw)). exports v \<noteq> None"
  show "render_jinja template loads exports raw =
        loads (concat (map (\<lambda>s. case s of Text t \<Rightarrow> t | Variable v \<Rightarrow> the (exports v))
                 (template raw)))"
  proof (cases "find_undeclared_variables (template raw) = []")
    case True
    then have "variable_names (template raw) = []"
      by (simp add: find_undeclared_variables_def)
    with True show ?thesis
      by (simp add: render_jinja_def render_no_variables [where exports = exports])
  next
    case False
    from ok have "filter (\<lambda>v. exports v = None) (find_undeclared_variables (template raw)) = []"
      by (auto simp: find_undeclared_variables_def filter_empty_conv)
    moreover have "render (template raw) (exports |` set (find_undeclared_variables (template raw))) =
      concat (map (\<lambda>s. case s of Text t \<Rightarrow> t | Variable v \<Rightarrow> the (exports v)) (template raw))"
      using ok by (intro render_restrict) (auto simp: find_undeclared_variables_def)
    ultimately show ?thesis using False
      by (simp add: render_jinja_def Let_def)
  qed
qed

theorem render_jinja_all_or_nothing_witness:
  "render_jinja test_template (\<lambda>s. Inr (JStr s))
     (get_cloudformation_exports [[(''TestExport'', ''TestValue'')]] Map.empty) JNull
     = Inr empty_override_raw \<and>
   render_jinja (\<lambda>doc. [Text ''a'', Variable ''TestExport'']) (\<lambda>s. Inr (JStr s))
     (get_cloudformation_exports [[(''TestExport'', ''TestValue'')]] Map.empty) JNull
     = Inr (JStr ''aTestValue'')"
  using render_jinja_all_or_nothing [of test_template JNull
      "get_cloudformation_exports [[(''TestExport'', ''TestValue'')]] Map.empty" "\<lambda>s. Inr (JStr s)"]
    render_jinja_all_or_nothing [of "\<lambda>doc. [Text ''a'', Variable ''TestExport'']" JNull
      "get_cloudformation_exports [[(''TestExport'', ''TestValue'')]] Map.empty" "\<lambda>s. Inr (JStr s)"]
  by (simp add: test_template_def)

section \<open>Properties of the contract suite\<close>

lemma call_trace:
  "call c act model previous (w, trace) = (r, s') \<Longrightarrow>
   snd s' = trace @ [(act, model)] \<and> (r, fst s') = invoke c act model previous w"
  by (auto simp: call_def split: prod.splits)

lemma call_and_assert_trace:
  "call_and_assert c act st model previous (w, trace) = (r, s') \<Longrightarrow>
   s' = (snd (invoke c act model previous w), trace @ [(act, model)])"
  by (auto simp: call_and_assert_def call_def split: prod.splits sum.splits if_splits option.splits)

lemma get_set_path: "get_path (set_path m q v) q = Some v"
  by (induction m q v rule: set_path.induct) (auto simp: update_conv')

text \<open>
  What \<^verbatim>\<open>call_and_assert\<close> with the expected status \<^verbatim>\<open>FAILED\<close> returns, in terms of
  the invocation.
\<close>

lemma call_and_assert_FAILED:
  "fst (call_and_assert c act FAILED model previous (w, trace)) =
     (case fst (invoke c act model previous w) of
        Inl e \<Rightarrow> Inl e
      | Inr response \<Rightarrow>
          if status response = FAILED \<and> errorCode response \<noteq> None \<and>
             (\<exists>msg. message response = Some msg \<and> msg \<noteq> [])
          then Inr (FAILED, response, errorCode response)
          else Inl AssertionError)"
  by (auto simp: call_and_assert_def call_def split: prod.splits sum.splits option.splits)

text \<open>
  C5. When the schema declares a readOnly path, the model that
  \<^verbatim>\<open>contract_invalid_create\<close> sends holds the synthesized value at a readOnly path.
  The scenario invokes CREATE with this model and then, whatever the invocation
  returned or raised and whatever the assertions on it did, invokes DELETE with the same
  model on the state that the CREATE left: these two invocations are all it issues,
  and the handler ends in the state that the DELETE leaves. The scenario is never
  skipped; it passes exactly when the CREATE ended \<^verbatim>\<open>FAILED\<close> with the error code
  \<^verbatim>\<open>InvalidRequest\<close> and a non-empty message and the DELETE did not raise; it fails
  with the exception of the DELETE when that raises.
\<close>

theorem invalid_create_deletes:
  assumes "read_only_paths c \<noteq> []"
  shows "let m = generate_invalid_create_example c;
             created = invoke c CREATE m None w;
             deleted = invoke c DELETE m None (snd created)
         in (\<exists>p\<in>set (read_only_paths c). get_path m p = Some (read_only_example c)) \<and>
            snd (contract_invalid_create c (w, trace)) =
              (snd deleted, trace @ [(CREATE, m), (DELETE, m)]) \<and>
            fst (contract_invalid_create c (w, trace)) \<noteq> Skipped \<and>
            (fst (contract_invalid_create c (w, trace)) = Passed \<longleftrightarrow>
               (\<exists>response. fst created = Inr response \<and> status response = FAILED \<and>
                  errorCode response = Some InvalidRequest \<and>
                  (\<exists>msg. message response = Some msg \<and> msg \<noteq> [])) \<and>
               (\<exists>response. fst deleted = Inr response)) \<and>
            (\<forall>e. fst deleted = Inl e \<longrightarrow> fst (contract_invalid_create c (w, trace)) = Failed e)"
proof -
  let ?m = "generate_invalid_create_example c"
  let ?created = "invoke c CREATE ?m None w"
  let ?deleted = "invoke c DELETE ?m None (snd ?created)"
  let ?t1 = "trace @ [(CREATE, ?m)]"
  obtain r s1 where ca: "call_and_assert c CREATE FAILED ?m None (w, trace) = (r, s1)"
    by (metis prod.exhaust)
  from call_and_assert_trace [OF ca] have s1: "s1 = (snd ?created, ?t1)" .
  from ca call_and_assert_FAILED [of c CREATE ?m None w trace]
  have r: "r = (case fst ?created of
        Inl e \<Rightarrow> Inl e
      | Inr response \<Rightarrow>
          if status response = FAILED \<and> errorCode response \<noteq> None \<and>
             (\<exists>msg. message response = Some msg \<and> msg \<noteq> [])
          then Inr (FAILED, response, errorCode response)
          else Inl AssertionError)"
    by simp
  obtain d s2 where del: "call c DELETE ?m None s1 = (d, s2)"
    by (metis prod.exhaust)
  from call_trace [OF del [unfolded s1]]
  have s2: "s2 = (snd ?deleted, ?t1 @ [(DELETE, ?m)])" and d: "d = fst ?deleted"
    by (auto simp: prod_eq_iff)
  from assms obtain p ps where ro: "read_only_paths c = p # ps"
    by (cases "read_only_paths c") auto
  then have sets: "\<exists>p\<in>set (read_only_paths c). get_path ?m p = Some (read_only_example c)"
    by (auto simp: generate_invalid_create_example_def get_set_path)
  have run: "snd (contract_invalid_create c (w, trace)) = s2"
    using assms ca del
    by (simp add: contract_invalid_create_def create_with_invalid_model_def failed_event_def Let_def
        split: sum.splits prod.splits option.splits)
  have verdict: "fst (contract_invalid_create c (w, trace)) =
      (case d of
         Inl e \<Rightarrow> Failed e
       | Inr _ \<Rightarrow>
           (case fst ?created of
              Inl e \<Rightarrow> Failed e
            | Inr response \<Rightarrow>
                if status response = FAILED \<and> errorCode response = Some InvalidRequest \<and>
                   (\<exists>msg. message response = Some msg \<and> msg \<noteq> [])
                then Passed else Failed AssertionError))"
    using assms ca del unfolding r
    by (auto simp: contract_invalid_create_def create_with_invalid_model_def failed_event_def Let_def
        split: sum.splits prod.splits option.splits)
  have skipped: "fst (contract_invalid_create c (w, trace)) \<noteq> Skipped"
    unfolding verdict by (simp split: sum.splits)
  have passed: "fst (contract_invalid_create c (w, trace)) = Passed \<longleftrightarrow>
               (\<exists>response. fst ?created = Inr response \<and> status response = FAILED \<and>
                  errorCode response = Some InvalidRequest \<and>
                  (\<exists>msg. message response = Some msg \<and> msg \<noteq> [])) \<and>
               (\<exists>response. fst ?deleted = Inr response)"
    unfolding verdict d by (auto split: sum.splits)
  have failed: "\<forall>e. fst ?deleted = Inl e \<longrightarrow> fst (contract_invalid_create c (w, trace)) = Failed e"
    unfolding verdict d by simp
  from sets run s2 skipped passed failed show ?thesis
    by (simp add: Let_def)
qed

theorem invalid_create_deletes_witness:
  "read_only_paths rejecting_client \<noteq> [] \<and>
   get_path (generate_invalid_create_example rejecting_client) [''Arn''] = Some (JStr ''a'') \<and>
   contract_invalid_create rejecting_client ((), []) =
     (Passed, ((), [(CREATE, JObj [(''Name'', JStr ''n''), (''Arn'', JStr ''a'')]),
                    (DELETE, JObj [(''Name'', JStr ''n''), (''Arn'', JStr ''a'')])]))"
proof -
  have h: "read_only_paths rejecting_client \<noteq> []"
    by (simp add: rejecting_client_def)
  have m: "generate_invalid_create_example rejecting_client =
      JObj [(''Name'', JStr ''n''), (''Arn'', JStr ''a'')]"
    by (simp add: generate_invalid_create_example_def rejecting_client_def)
  have i: "invoke rejecting_client CREATE model None () =
      (Inr \<lparr> status = FAILED, resourceModel = None, errorCode = Some InvalidRequest,
             message = Some ''readOnly'' \<rparr>, ())"
    "invoke rejecting_client DELETE model None () =
      (Inr \<lparr> status = SUCCESS, resourceModel = None, errorCode = None, message = None \<rparr>, ())"
    for model
    by (simp_all add: rejecting_client_def)
  from invalid_create_deletes [OF h, of "()" "[]"] show ?thesis
    unfolding Let_def m i
    by (cases "contract_invalid_create rejecting_client ((), [])")
       (auto simp: rejecting_client_def)
qed

subsection \<open>Copying the primary identifier\<close>











section \<open>Properties of the normalizer\<close>

subsection \<open>Outcomes\<close>


lemma and_then_returns [simp]: "and_then (returns x) f = f x"
  by (simp add: and_then_def returns_def)

lemma and_then_raises [simp]: "and_then (raises e) f = raises e"
  by (simp add: and_then_def raises_def)

lemma and_then_None [simp]: "and_then None f = None"
  by (simp add: and_then_def)

lemma returns_eq [simp]: "returns x = Some (Inr y) \<longleftrightarrow> x = y"
  by (simp add: returns_def)

lemma raises_neq [simp]: "raises e \<noteq> Some (Inr y)"
  by (simp add: raises_def)

subsection \<open>The merge\<close>


declare schema_merge.simps(2) [simp del]



subsection \<open>Flattening\<close>


subsection \<open>Evaluation\<close>


subsection \<open>The tests of the normalizer, replayed\<close>

lemma test_walk_primitive_type:
  "list_all (\<lambda>t. walk 1 (JObj []) [] [] (JObj [(''type'', JStr t)])
                  = returns (JObj [(''type'', JStr t)], []))
     [''string'', ''integer'', ''number'', ''object'', ''array'', ''boolean'']"
  by code_simp

lemma test_walk_ref_to_primitive_type:
  "list_all (\<lambda>t. walk 2 (JObj [(''definitions'', JObj [(''type'', JStr t)])]) [] []
                    (JObj [(''$ref'', JStr ''#/definitions'')])
                  = returns (JObj [(''type'', JStr t)], []))
     [''string'', ''integer'', ''number'', ''object'', ''array'', ''boolean'']"
  by code_simp

lemma test_walk_path_already_processed:
  "walk 1 (JObj []) [(''#/properties/City'', JNull)] ''#/properties/City'' JNull
   = returns (ref ''#/properties/City'', [(''#/properties/City'', JNull)])"
  by code_simp

lemma test_find_schema_from_ref:
  "find_subschema_by_ref area_schema ''#'' = Inr area_schema \<and>
   find_subschema_by_ref area_schema ''#/this/is/not/a/path''
     = Inl (NormalizationError ''#/this/is/not/a/path'') \<and>
   find_subschema_by_ref
     (JObj [(''patternProperties'',
             JObj [(''[A-Za-z0-9]{1,64}'', JObj [(''type'', JStr ''string'')])])])
     ''#/patternProperties/%5BA-Za-z0-9%5D%7B1%2C64%7D''
     = Inr (JObj [(''type'', JStr ''string'')])"
  by code_simp

lemma test_collapse_array_type:
  "collapse_array_type (walk 3 (JObj [])) [] ''#/properties/n''
     [(''type'', JStr ''array''),
      (''items'', JObj [(''type'', JStr ''object''),
                        (''patternProperties'',
                         JObj [(''[A-Za-z0-9]{1,64}'',
                                JObj [(''properties'', JObj [(''street'', JObj [(''type'', JStr ''string'')])])])])])]
   = returns
       (JObj [(''type'', JStr ''array''),
              (''items'', JObj [(''type'', JStr ''object''),
                 (''patternProperties'',
                  JObj [(''[A-Za-z0-9]{1,64}'',
                         ref ''#/properties/n/items/patternProperties/%5BA-Za-z0-9%5D%7B1%2C64%7D'')])])],
        [(''#/properties/n/items/patternProperties/%5BA-Za-z0-9%5D%7B1%2C64%7D'',
          JObj [(''properties'', JObj [(''street'', JObj [(''type'', JStr ''string'')])])])])"
  by code_simp

lemma test_walk_oneof_becomes_invalid:
  "walk 3 (JObj []) [] ''#/properties/Foo''
     (JObj [(''properties'', JObj [(''Foo'', JObj [(''type'', JStr ''string'')])]),
            (''anyOf'', JArr [JObj [(''patternProperties'', JObj [(''Test'', JObj [(''type'', JStr ''string'')])])]])])
   = raises (ConstraintError MutuallyExclusive ''#/properties/Foo'')"
  by code_simp

lemma test_overwrite_ref:
  "flatten_combiners (walk 3 (JObj [])) [(''#/definitions/Other'', JObj [])] ''#/properties/Foo''
     [(''properties'', JObj [(''Test'', JObj [(''$ref'', JStr ''#/definitions/Id'')])]),
      (''anyOf'', JArr [JObj [(''properties'', JObj [(''Test'', JObj [(''$ref'', JStr ''#/definitions/Other'')])])]])]
   = returns ([(''properties'', JObj [(''Test'', JObj [(''$ref'', JStr ''#/definitions/Other'')])])],
              [(''#/definitions/Other'', JObj [])])"
  by code_simp

lemma test_overwrite_type:
  "flatten_combiners (walk 3 (JObj [])) [] ''#/properties/Foo''
     [(''properties'', JObj [(''Test'', JObj [(''type'', JStr ''object'')])]),
      (''anyOf'', JArr [JObj [(''properties'', JObj [(''Test'', JObj [(''type'', JStr ''integer'')])])]])]
   = returns ([(''properties'', JObj [(''Test'', JObj [(''type'', JStr ''integer'')])])], [])"
  by code_simp

lemma test_squash_array_keys_objects:
  "flatten_combiners (walk 3 (JObj [])) [] ''#/properties/Foo''
     [(''type'', JStr ''object''),
      (''properties'', JObj [(''Baz'', JObj [(''type'', JStr ''array'')])]),
      (''allOf'', JArr [JObj [(''properties'', JObj [(''Foo'', JObj [(''type'', JStr ''string'')])])]]),
      (''oneOf'', JArr [JObj [(''properties'',
          JObj [(''Foo'', JObj [(''type'', JStr ''string''), (''pattern'', JStr ''[a-z]+'')])])]]),
      (''anyOf'', JArr [JObj [(''properties'', JObj [(''Bar'', JObj [(''type'', JStr ''number'')])])]])]
   = returns ([(''type'', JStr ''object''),
               (''properties'',
                JObj [(''Baz'', JObj [(''type'', JStr ''array'')]),
                      (''Foo'', JObj [(''type'', JStr ''string''), (''pattern'', JStr ''[a-z]+'')]),
                      (''Bar'', JObj [(''type'', JStr ''number'')])])], []) \<and>
   list_all (\<lambda>arr_key.
       flatten_combiners (walk 3 (JObj [])) [] ''#/properties/Foo''
         [(''type'', JStr ''object''),
          (''properties'', JObj [(''Baz'', JObj [(''type'', JStr ''array'')])]),
          (arr_key, JArr [JObj [(''properties'', JObj [(''Foo'', JObj [(''type'', JStr ''string'')])])],
                          JObj [(''properties'',
                             JObj [(''Foo'', JObj [(''type'', JStr ''string''), (''pattern'', JStr ''[a-z]+'')]),
                                   (''Bar'', JObj [(''type'', JStr ''number'')])])]])]
       = returns ([(''type'', JStr ''object''),
               (''properties'',
                JObj [(''Baz'', JObj [(''type'', JStr ''array'')]),
                      (''Foo'', JObj [(''type'', JStr ''string''), (''pattern'', JStr ''[a-z]+'')]),
                      (''Bar'', JObj [(''type'', JStr ''number'')])])], []))
     [''anyOf'', ''oneOf'', ''allOf'']"
  by code_simp

lemma test_constraint_array_additional_items:
  "collapse_array_type (walk 1 (JObj [])) [] ''OWSAZD'' [] = returns (JObj [], []) \<and>
   collapse_array_type (walk 1 (JObj [])) [] ''OWSAZD''
     [(''additionalItems'', JObj [(''type'', JStr ''string'')])]
     = raises (ConstraintError AdditionalItems ''OWSAZD'')"
  by code_simp

lemma test_constraint_object_additional_properties:
  "collapse_object_type (walk 1 (JObj [])) [] ''OWSAZD'' [] = returns (JObj [], []) \<and>
   collapse_object_type (walk 1 (JObj [])) [] ''OWSAZD''
     [(''additionalProperties'', JObj [(''type'', JStr ''string'')])]
     = raises (ConstraintError AdditionalProperties ''OWSAZD'')"
  by code_simp

lemma test_constraint_object_properties_and_pattern_properties:
  "collapse_object_type (walk 1 (JObj [])) [] ''OWSAZD''
     [(''properties'', JObj [(''foo'', JObj [(''type'', JStr ''string'')])]),
      (''patternProperties'', JObj [(''type'', JStr ''string'')])]
     = raises (ConstraintError MutuallyExclusive ''OWSAZD'')"
  by code_simp


text \<open>
  Reference cycles: a document that is a reference to itself, two definitions that
  reference each other, and an object with a property that references the object.
\<close>

lemma walk_reference_cycles:
  "collapse_and_resolve_schema 2 (JObj [(''$ref'', JStr ''#'')]) = returns [] \<and>
   walk 3 (JObj [(''a'', JObj [(''$ref'', JStr ''#/b'')]), (''b'', JObj [(''$ref'', JStr ''#/a'')])])
     [] ''#/a'' (JObj [(''$ref'', JStr ''#/b'')])
   = returns (ref ''#/a'', []) \<and>
   collapse_and_resolve_schema 3
     (JObj [(''properties'', JObj [(''self'', JObj [(''$ref'', JStr ''#'')])])])
   = returns [(''#'', JObj [(''properties'', JObj [(''self'', ref ''#'')])])]"
  by code_simp

subsection \<open>Flattening is a fold of the merge over the resolved branches\<close>














end
